theory Spec2Isabelle
  imports Main
begin

section \<open>Values, requests and service descriptors\<close>

text \<open>
  The JavaScript values that cross the model: the handlers' arguments and results, the
  context body and the errors that are thrown. \<open>ErrorV m\<close> is \<^verbatim>\<open>new Error(m)\<close>;
  \<open>TypeErrorV m\<close> is a \<^verbatim>\<open>TypeError\<close> raised by the engine itself.
\<close>

datatype jsval =
    Undefined
  | Null
  | Bool bool
  | Num int
  | Str string
  | ErrorV string
  | TypeErrorV string

text \<open>The truthiness test of \<^verbatim>\<open>if (v)\<close>.\<close>

fun truthy :: "jsval \<Rightarrow> bool" where
  "truthy Undefined = False"
| "truthy Null = False"
| "truthy (Bool b) = b"
| "truthy (Num n) = (n \<noteq> 0)"
| "truthy (Str s) = (s \<noteq> [])"
| "truthy (ErrorV m) = True"
| "truthy (TypeErrorV m) = True"

text \<open>
  The response status codes of \<^verbatim>\<open>DUBBO_RESPONSE_STATUS\<close> that the server assigns.
\<close>

datatype DUBBO_RESPONSE_STATUS = OK | SERVICE_NOT_FOUND | SERVER_ERROR

text \<open>
  A decoded request. \<open>None\<close> stands for a field that the decoded request leaves
  \<^verbatim>\<open>undefined\<close>: the attachment's group and version, and the argument list.
\<close>

record attachment =
  path :: string
  att_group :: "string option"
  att_version :: "string option"

record request =
  methodName :: string
  args :: "jsval list option"
  attachment :: attachment

record "context" =
  request :: request
  status :: DUBBO_RESPONSE_STATUS
  body :: jsval

text \<open>
  A piece of asynchronous code completes normally with a value or throws (its promise
  rejects); either way the changes it made to the shared context stay.
\<close>

datatype 'a completion = Normal 'a | Throw jsval

text \<open>
  A service method is called with the request's arguments followed by the context, which
  it may change.
\<close>

type_synonym handler = "jsval list \<Rightarrow> context \<Rightarrow> jsval completion \<times> context"

text \<open>
  A service descriptor. The method table is an object: \<open>methods\<close> is the list of its
  own entries in the order \<^verbatim>\<open>Object.keys\<close> enumerates them, every value a function,
  and \<open>inheritedNames\<close> are the names under which it finds a (truthy) member through
  its prototype chain. Group and version are \<open>None\<close> while they are \<^verbatim>\<open>undefined\<close>.
\<close>

record service =
  dubboInterface :: string
  group :: "string option"
  version :: "string option"
  methods :: "(string \<times> handler) list"
  inheritedNames :: "string list"

text \<open>
  The members of \<^verbatim>\<open>Object.prototype\<close>, which a method table written as an object
  literal inherits.
\<close>

definition objectPrototype :: "string list" where
  "objectPrototype =
     [''constructor'', ''__defineGetter__'', ''__defineSetter__'', ''hasOwnProperty'',
      ''__lookupGetter__'', ''__lookupSetter__'', ''isPrototypeOf'', ''propertyIsEnumerable'',
      ''toString'', ''valueOf'', ''__proto__'', ''toLocaleString'']"

text \<open>
  The property read \<^verbatim>\<open>service.methods[name]\<close>: an own entry, else a member found
  through the prototype chain, else \<^verbatim>\<open>undefined\<close>.
\<close>

datatype member = OwnMethod handler | InheritedMember string

definition getMember :: "service \<Rightarrow> string \<Rightarrow> member option" where
  "getMember s name =
     (case map_of (methods s) name of
        Some method \<Rightarrow> Some (OwnMethod method)
      | None \<Rightarrow> if name \<in> set (inheritedNames s) then Some (InheritedMember name) else None)"

text \<open>The router table, a \<^verbatim>\<open>Map\<close> from interface names to lists of descriptors.\<close>

type_synonym serviceRouter = "string \<Rightarrow> service list option"

section \<open>The router: \<^verbatim>\<open>matchService\<close>\<close>

text \<open>
  \<^verbatim>\<open>matchService\<close>. The test \<^verbatim>\<open>s.methods[methodName]\<close> holds when the property
  read finds a member, own or inherited.
\<close>

definition matchService :: "serviceRouter \<Rightarrow> request \<Rightarrow> service option" where
  "matchService router req =
     (let mName = methodName req;
          p = path (attachment req);
          g = (case att_group (attachment req) of None \<Rightarrow> [] | Some x \<Rightarrow> x);
          v = (case att_version (attachment req) of None \<Rightarrow> ''0.0.0'' | Some x \<Rightarrow> x);
          serviceList = (case router p of None \<Rightarrow> [] | Some l \<Rightarrow> l)
      in find (\<lambda>s.
           let isSameVersion = (v = ''*'' \<or> version s = Some v);
               isSameGroup = (Some g = group s)
           in getMember s mName \<noteq> None \<and> isSameGroup \<and> isSameVersion) serviceList)"

section \<open>Registration URLs: \<^verbatim>\<open>buildUrl\<close>\<close>

text \<open>
  \<^verbatim>\<open>querystring.stringify\<close> of Node.js, for an object whose values are primitives.
  Strings are sequences of bytes (the UTF-8 encoding), which is what the escaping works on.
\<close>

datatype qsval = QStr string | QNum nat | QBool bool | QUndefined

definition digitChar :: "nat \<Rightarrow> char" where
  "digitChar d = ''0123456789ABCDEF'' ! d"

fun decimal :: "nat \<Rightarrow> string" where
  "decimal n = (if n < 10 then [digitChar n] else decimal (n div 10) @ [digitChar (n mod 10)])"

declare decimal.simps [simp del]

fun stringifyPrimitive :: "qsval \<Rightarrow> string" where
  "stringifyPrimitive (QStr s) = s"
| "stringifyPrimitive (QNum n) = decimal n"
| "stringifyPrimitive (QBool b) = (if b then ''true'' else ''false'')"
| "stringifyPrimitive QUndefined = []"

text \<open>The bytes that \<^verbatim>\<open>querystring.escape\<close> leaves as they are.\<close>

definition noEscape :: "char \<Rightarrow> bool" where
  "noEscape c =
     (let n = (of_char c :: nat)
      in n = 33 \<or> (39 \<le> n \<and> n \<le> 42) \<or> n = 45 \<or> n = 46 \<or> (48 \<le> n \<and> n \<le> 57)
         \<or> (65 \<le> n \<and> n \<le> 90) \<or> n = 95 \<or> (97 \<le> n \<and> n \<le> 122) \<or> n = 126)"

definition escapeChar :: "char \<Rightarrow> string" where
  "escapeChar c =
     (if noEscape c then [c]
      else [CHR ''%'', digitChar ((of_char c :: nat) div 16), digitChar ((of_char c :: nat) mod 16)])"

definition qsEscape :: "string \<Rightarrow> string" where
  "qsEscape s = concat (map escapeChar s)"

fun join :: "string \<Rightarrow> string list \<Rightarrow> string" where
  "join sep [] = []"
| "join sep [x] = x"
| "join sep (x # y # ys) = x @ sep @ join sep (y # ys)"

definition qs_stringify :: "(string \<times> qsval) list \<Rightarrow> string" where
  "qs_stringify obj =
     join ''&'' (map (\<lambda>(k, v). qsEscape k @ ''='' @ qsEscape (stringifyPrimitive v)) obj)"

definition optStr :: "string option \<Rightarrow> qsval" where
  "optStr x = (case x of None \<Rightarrow> QUndefined | Some s \<Rightarrow> QStr s)"

text \<open>
  \<^verbatim>\<open>buildUrl\<close>. The host address (\<^verbatim>\<open>ip.address()\<close>), the server's port
  (\<open>None\<close> while it is \<^verbatim>\<open>undefined\<close>), the process id and the clock reading
  (\<^verbatim>\<open>Date.now()\<close>) are the first four arguments.
\<close>

definition buildUrl :: "string \<Rightarrow> nat option \<Rightarrow> nat \<Rightarrow> nat \<Rightarrow> service \<Rightarrow> string" where
  "buildUrl ipAddr port pid now svc =
     (let mName = join '','' (map fst (methods svc))
      in ''dubbo://'' @ ipAddr @ '':''
         @ (case port of None \<Rightarrow> ''undefined'' | Some p \<Rightarrow> decimal p)
         @ ''/'' @ dubboInterface svc @ ''?''
         @ qs_stringify
             [(''group'', optStr (group svc)),
              (''version'', optStr (version svc)),
              (''method'', QStr mName),
              (''side'', QStr ''provider''),
              (''pid'', QNum pid),
              (''generic'', QBool False),
              (''protocal'', QStr ''dubbo''),
              (''dynamic'', QBool True),
              (''category'', QStr ''providers''),
              (''anyhost'', QBool True),
              (''timestamp'', QNum now)])"

section \<open>Registration: the loop of \<^verbatim>\<open>registerServices\<close>\<close>

record meta =
  m_group :: "string option"
  m_version :: "string option"

text \<open>
  The setting lookup \<^verbatim>\<open>getDubboSetting\<close>, from the short name and the interface of a
  service to its group and version.
\<close>

type_synonym dubboSetting = "string \<Rightarrow> string \<Rightarrow> meta"

record registryEntry =
  dubboServiceInterface :: string
  dubboServiceUrl :: string

text \<open>
  The \<^verbatim>\<open>for\<close> loop over \<^verbatim>\<open>Object.entries(this.services)\<close>: the entries still to
  visit, then the router, the batch collected so far and the entries already visited
  (with their group and version assigned). \<open>url k s\<close> is \<^verbatim>\<open>this.buildUrl(s)\<close> in
  iteration \<open>k\<close>. The loop assigns group and version on the descriptor itself; the
  entries of the service map are taken to be distinct objects.
\<close>

fun registerLoop ::
  "dubboSetting option \<Rightarrow> (nat \<Rightarrow> service \<Rightarrow> string) \<Rightarrow> (string \<times> service) list
   \<Rightarrow> serviceRouter \<Rightarrow> registryEntry list \<Rightarrow> (string \<times> service) list
   \<Rightarrow> serviceRouter \<times> registryEntry list \<times> (string \<times> service) list" where
  "registerLoop setting url [] router batch visited = (router, batch, visited)"
| "registerLoop setting url ((shortName, svc) # rest) router batch visited =
     (let m = (case setting of
                 Some getDubboSetting \<Rightarrow> getDubboSetting shortName (dubboInterface svc)
               | None \<Rightarrow> \<lparr>m_group = Some [], m_version = Some ''0.0.0''\<rparr>);
          svc' = svc\<lparr>group := m_group m, version := m_version m\<rparr>;
          router' = (case router (dubboInterface svc') of
                       Some l \<Rightarrow> router(dubboInterface svc' \<mapsto> l @ [svc'])
                     | None \<Rightarrow> router(dubboInterface svc' \<mapsto> [svc']));
          dubboServiceUrl = url (length batch) svc'
      in registerLoop setting url rest router'
           (batch @ [\<lparr>dubboServiceInterface = dubboInterface svc',
                      dubboServiceUrl = dubboServiceUrl\<rparr>])
           (visited @ [(shortName, svc')]))"

section \<open>The request pipeline: the terminal step and \<^verbatim>\<open>compose\<close>\<close>

text \<open>
  The receiver \<^verbatim>\<open>this\<close> of a function call. The pipeline steps are strict-mode code
  (the body of a class in a module), so a step that is called as a plain function,
  \<^verbatim>\<open>fn(context, next)\<close>, has the receiver \<^verbatim>\<open>undefined\<close>; \<open>ThisContext\<close> is a
  call with the context itself as the receiver.
\<close>

datatype receiver = ThisUndefined | ThisContext

text \<open>
  What the pipeline works on: the context of the request, one mutable object shared by
  every step, and the indices of the steps that were invoked, in order.
\<close>

record world =
  ctx :: "context"
  invoked :: "nat list"

type_synonym 'a prog = "world \<Rightarrow> 'a completion \<times> world"

text \<open>
  A pipeline step \<^verbatim>\<open>(ctx, next) => ...\<close>: its receiver, the rest of the chain, and
  the world it runs in.
\<close>

type_synonym middleware = "receiver \<Rightarrow> unit prog \<Rightarrow> unit prog"

text \<open>
  The assignment \<^verbatim>\<open>this.body = v\<close>: on the receiver \<^verbatim>\<open>undefined\<close> the engine
  throws a \<^verbatim>\<open>TypeError\<close>.
\<close>

definition setThisBody :: "receiver \<Rightarrow> jsval \<Rightarrow> unit prog" where
  "setThisBody this v w =
     (case this of
        ThisUndefined \<Rightarrow> (Throw (TypeErrorV ''Cannot set properties of undefined''), w)
      | ThisContext \<Rightarrow> (Normal (), w\<lparr>ctx := (ctx w)\<lparr>body := v\<rparr>\<rparr>))"

text \<open>
  The terminal step \<^verbatim>\<open>handleRequest\<close>, for the matched service and the request.
  \<open>checkRetValHessian\<close> is the predicate \<^verbatim>\<open>util.checkRetValHessian\<close>, and
  \<open>applyInherited s name\<close> is what the engine does when the inherited member \<open>name\<close>
  is applied to the descriptor \<open>s\<close> (it throws when the member is not callable). The
  step never calls \<open>next\<close>.
\<close>

definition handleRequest ::
  "(jsval \<Rightarrow> bool) \<Rightarrow> (service \<Rightarrow> string \<Rightarrow> handler) \<Rightarrow> service \<Rightarrow> request \<Rightarrow> middleware" where
  "handleRequest checkRetValHessian applyInherited svc req this next w =
     (let w1 = w\<lparr>ctx := (ctx w)\<lparr>status := OK\<rparr>\<rparr>;
          a = (case args req of None \<Rightarrow> [] | Some x \<Rightarrow> x);
          (r, c2) = (case getMember svc (methodName req) of
                       None \<Rightarrow> (Throw (TypeErrorV ''Cannot read properties of undefined''), ctx w1)
                     | Some (OwnMethod method) \<Rightarrow> method a (ctx w1)
                     | Some (InheritedMember name) \<Rightarrow> applyInherited svc name a (ctx w1));
          w2 = w1\<lparr>ctx := c2\<rparr>;
          checked = (case r of
                       Normal res \<Rightarrow>
                         if \<not> checkRetValHessian res
                         then Throw (ErrorV (path (attachment req) @ ''#'' @ methodName req
                                             @ '' return value not hessian type''))
                         else Normal res
                     | Throw err \<Rightarrow> Throw err)
      in case checked of
           Normal res \<Rightarrow>
             (case setThisBody this res w2 of
                (Normal u, w3) \<Rightarrow> (Normal (), w3)
              | (Throw err, w3) \<Rightarrow> setThisBody this err w3)
         | Throw err \<Rightarrow> setThisBody this err w2)"

text \<open>
  \<^verbatim>\<open>compose\<close> of koa-compose: \<open>dispatch\<close> at index \<open>i\<close> calls step \<open>i\<close> as a
  plain function, with the dispatch of the next index as its \<open>next\<close>; past the last
  step it resolves. A step is taken to call \<open>next\<close> at most once (a second call is
  rejected by koa-compose and is outside this model).
\<close>

primrec dispatch :: "middleware list \<Rightarrow> nat \<Rightarrow> unit prog" where
  "dispatch [] i = (\<lambda>w. (Normal (), w))"
| "dispatch (fn # rest) i =
     (\<lambda>w. fn ThisUndefined (dispatch rest (Suc i)) (w\<lparr>invoked := invoked w @ [i]\<rparr>))"

definition compose :: "middleware list \<Rightarrow> unit prog" where
  "compose middleware = dispatch middleware 0"

section \<open>The server: construction, \<^verbatim>\<open>listen\<close>, \<^verbatim>\<open>registerServices\<close>, \<^verbatim>\<open>close\<close>\<close>

text \<open>
  An argument that may be missing: \<^verbatim>\<open>undefined\<close>, \<^verbatim>\<open>null\<close> or the value.
\<close>

datatype 'a propval = PUndefined | PNull | PObject 'a

text \<open>
  Modelled from the spec: \<^verbatim>\<open>util.isObj\<close> (package \<^verbatim>\<open>@apache/dubbo-common\<close>) is not
  under the sources. The spec has "a discovery registry handle and a non-empty service map
  are mandatory; absence of either is a fatal configuration error": the test holds of an
  object that has entries, and fails on \<^verbatim>\<open>undefined\<close>, on \<^verbatim>\<open>null\<close> and on an
  object without entries. An object is given by the list of its entries.
\<close>

definition isObj :: "'a list propval \<Rightarrow> bool" where
  "isObj v = (case v of PObject entries \<Rightarrow> entries \<noteq> [] | PUndefined \<Rightarrow> False | PNull \<Rightarrow> False)"

text \<open>The registry handle: the operations that the server calls on it.\<close>

datatype registryMember = Ready | RegistyServices | Close

record props =
  props_registry :: "registryMember list propval"
  props_services :: "(string \<times> service) list propval"
  props_dubboSetting :: "dubboSetting option"

datatype promiseState = Pending | Fulfilled | Rejected jsval

text \<open>
  What the server does to the outside, in the order it does it: the calls that settle the
  readiness promise, the calls on the retry container, on the registry and on the
  listener, and a rejected promise that nobody handles.
\<close>

datatype event =
    Listening nat
  | ReadyResolve
  | ReadyReject jsval
  | RetryReset
  | RetryStart
  | RegistryReady
  | RegistryInformed "registryEntry list"
  | RegistryClose
  | ServerClose
  | UnhandledRejection jsval

text \<open>
  The fields of the server. \<open>server\<close> is the listener that \<^verbatim>\<open>listen\<close> creates, named
  by its port, \<open>None\<close> while the field is \<^verbatim>\<open>undefined\<close>.
\<close>

record serverState =
  readyPromise :: promiseState
  port :: "nat option"
  server :: "nat option"
  dubboSetting :: "dubboSetting option"
  services :: "(string \<times> service) list"
  serviceRouter :: serviceRouter
  middlewares :: "middleware list"
  events :: "event list"

text \<open>
  What the collaborators answer: the port allocator, the listener (\<open>bindError = None\<close>
  when the listening callback fires, \<open>Some err\<close> when the error event does), the retry
  container (\<open>Some e\<close> when \<^verbatim>\<open>retry.start()\<close> throws \<open>e\<close>), the registry
  (\<open>Some err\<close> when \<^verbatim>\<open>ready()\<close> rejects, when \<^verbatim>\<open>registyServices\<close> throws), the host
  address, the process id and the clock at the \<open>k\<close>-th reading.
\<close>

record environment =
  randomPort :: nat
  bindError :: "jsval option"
  retryStartThrows :: "jsval option"
  registryReady :: "jsval option"
  registryRegister :: "jsval option"
  ipAddress :: string
  pid :: nat
  now :: "nat \<Rightarrow> nat"

definition emit :: "event \<Rightarrow> serverState \<Rightarrow> serverState" where
  "emit e st = st\<lparr>events := events st @ [e]\<rparr>"

text \<open>A promise settles once: a later \<open>resolve\<close> or \<open>reject\<close> changes nothing.\<close>

definition resolveReady :: "serverState \<Rightarrow> serverState" where
  "resolveReady st =
     emit ReadyResolve
       (st\<lparr>readyPromise := (if readyPromise st = Pending then Fulfilled else readyPromise st)\<rparr>)"

definition rejectReady :: "jsval \<Rightarrow> serverState \<Rightarrow> serverState" where
  "rejectReady err st =
     emit (ReadyReject err)
       (st\<lparr>readyPromise := (if readyPromise st = Pending then Rejected err else readyPromise st)\<rparr>)"

definition checkProps :: "props \<Rightarrow> jsval + unit" where
  "checkProps ps =
     (if \<not> isObj (props_registry ps)
      then Inl (ErrorV ''Please specify registry, use Zk or Nacos init registry'')
      else if \<not> isObj (props_services ps)
      then Inl (ErrorV ''Please specify dubbo service'')
      else Inr ())"

text \<open>
  The constructor: the error that \<^verbatim>\<open>checkProps\<close> throws, or the new server with the
  fields that the constructor assigns. The first \<^verbatim>\<open>listen\<close> is scheduled for the next
  tick and is a later step of the model.
\<close>

definition initialise :: "props \<Rightarrow> serverState" where
  "initialise ps =
     \<lparr>readyPromise = Pending, port = None, server = None,
      dubboSetting = props_dubboSetting ps,
      services = (case props_services ps of PObject s \<Rightarrow> s | PUndefined \<Rightarrow> [] | PNull \<Rightarrow> []),
      serviceRouter = Map.empty, middlewares = [], events = []\<rparr>"

definition DubboServer :: "props \<Rightarrow> jsval + serverState" where
  "DubboServer ps =
     (case checkProps ps of
        Inl err \<Rightarrow> Inl err
      | Inr u \<Rightarrow> Inr (initialise ps))"

definition registerServices :: "environment \<Rightarrow> serverState \<Rightarrow> unit completion \<times> serverState" where
  "registerServices env st =
     (let st1 = emit RegistryReady st
      in case registryReady env of
           Some err \<Rightarrow> (Throw err, st1)
         | None \<Rightarrow>
             (let (router, batch, visited) =
                    registerLoop (dubboSetting st1)
                      (\<lambda>k. buildUrl (ipAddress env) (port st1) (pid env) (now env k))
                      (services st1) (serviceRouter st1) [] [];
                  st2 = emit (RegistryInformed batch)
                          (st1\<lparr>services := visited, serviceRouter := router\<rparr>)
              in case registryRegister env of
                   Some err \<Rightarrow> (Throw err, st2)
                 | None \<Rightarrow> (Normal (), st2)))"

text \<open>
  One run of \<^verbatim>\<open>listen\<close> with the callback that follows it. The promise of
  \<^verbatim>\<open>registerServices()\<close> is dropped by the listening callback, so its rejection is
  handled by nobody. When \<^verbatim>\<open>retry.start()\<close> returns, the retry container calls
  \<^verbatim>\<open>listen\<close> again later: another run of this function.
\<close>

definition listen :: "environment \<Rightarrow> serverState \<Rightarrow> serverState" where
  "listen env st =
     (let st1 = st\<lparr>port := Some (randomPort env)\<rparr>;
          st2 = st1\<lparr>server := Some (randomPort env)\<rparr>
      in case bindError env of
           None \<Rightarrow>
             (let st3 = emit (Listening (randomPort env)) st2;
                  st4 = resolveReady st3;
                  st5 = emit RetryReset st4
              in case registerServices env st5 of
                   (Normal u, st6) \<Rightarrow> st6
                 | (Throw err, st6) \<Rightarrow> emit (UnhandledRejection err) st6)
         | Some err \<Rightarrow>
             (let st3 = emit RetryStart st2
              in case retryStartThrows env of
                   Some e \<Rightarrow> rejectReady e st3
                 | None \<Rightarrow> st3))"

text \<open>
  \<^verbatim>\<open>close\<close>: the state of the promise it returns, and the server after it.
  \<open>closeErr\<close> is the argument with which the listener calls the close callback. With
  no listener (\<^verbatim>\<open>this.server?.close\<close> on \<^verbatim>\<open>undefined\<close>) no callback is registered,
  and nothing else holds \<open>resolve\<close> or \<open>reject\<close>.
\<close>

definition close :: "jsval \<Rightarrow> serverState \<Rightarrow> promiseState \<times> serverState" where
  "close closeErr st =
     (let st1 = emit RegistryClose st
      in case server st1 of
           None \<Rightarrow> (Pending, st1)
         | Some l \<Rightarrow>
             (if truthy closeErr then Rejected closeErr else Fulfilled, emit ServerClose st1))"

text \<open>
  \<^verbatim>\<open>use\<close>: the \<^verbatim>\<open>TypeError\<close> for an argument that is not a function, or the
  server with the middleware appended.
\<close>

definition use :: "middleware propval \<Rightarrow> serverState \<Rightarrow> jsval + serverState" where
  "use fn st =
     (case fn of
        PObject f \<Rightarrow> Inr (st\<lparr>middlewares := middlewares st @ [f]\<rparr>)
      | PUndefined \<Rightarrow> Inl (TypeErrorV ''middleware must be a function'')
      | PNull \<Rightarrow> Inl (TypeErrorV ''middleware must be a function''))"

section \<open>Processing a request: \<^verbatim>\<open>invokeComposeChainRequest\<close>\<close>

text \<open>
  \<^verbatim>\<open>invokeComposeChainRequest\<close>, from the decoded request. \<open>newContext\<close> is the
  constructor \<^verbatim>\<open>new Context(request)\<close>; \<open>checkRetValHessian\<close> and
  \<open>applyInherited\<close> are those of the terminal step.
\<close>

definition invokeComposeChainRequest ::
  "(request \<Rightarrow> context) \<Rightarrow> (jsval \<Rightarrow> bool) \<Rightarrow> (service \<Rightarrow> string \<Rightarrow> handler)
   \<Rightarrow> serverState \<Rightarrow> request \<Rightarrow> world" where
  "invokeComposeChainRequest newContext checkRetValHessian applyInherited st req =
     (let found = matchService (serviceRouter st) req;
          w = \<lparr>ctx = newContext req, invoked = []\<rparr>;
          mName = methodName req;
          p = path (attachment req);
          g = (case att_group (attachment req) of None \<Rightarrow> [] | Some x \<Rightarrow> x);
          v = (case att_version (attachment req) of None \<Rightarrow> ''undefined'' | Some x \<Rightarrow> x)
      in case found of
           None \<Rightarrow>
             w\<lparr>ctx := (ctx w)\<lparr>status := SERVICE_NOT_FOUND,
                   body := ErrorV (''Service not found with '' @ p @ '' and '' @ mName
                                   @ '', group:'' @ g @ '', version:'' @ v)\<rparr>\<rparr>
         | Some svc \<Rightarrow>
             (case compose (middlewares st
                            @ [handleRequest checkRetValHessian applyInherited svc req]) w of
                (Normal u, w') \<Rightarrow> w'
              | (Throw err, w') \<Rightarrow> w'\<lparr>ctx := (ctx w')\<lparr>status := SERVER_ERROR, body := err\<rparr>\<rparr>))"

text \<open>
  A server from its construction to the end of its first \<^verbatim>\<open>listen\<close>, which the
  constructor schedules for the next tick.
\<close>

definition started :: "environment \<Rightarrow> props \<Rightarrow> jsval + serverState" where
  "started env ps = (case DubboServer ps of Inl err \<Rightarrow> Inl err | Inr st \<Rightarrow> Inr (listen env st))"

section \<open>Notions of the specification\<close>

text \<open>The group and the version that a request asks for, after the router's defaults.\<close>

definition requestedGroup :: "request \<Rightarrow> string" where
  "requestedGroup req = (case att_group (attachment req) of None \<Rightarrow> [] | Some x \<Rightarrow> x)"

definition requestedVersion :: "request \<Rightarrow> string" where
  "requestedVersion req = (case att_version (attachment req) of None \<Rightarrow> ''0.0.0'' | Some x \<Rightarrow> x)"

text \<open>
  A descriptor satisfies a request: same interface, same group, same version unless the
  request asks for the wildcard, and the method is in the descriptor's table.
\<close>

definition satisfies :: "request \<Rightarrow> service \<Rightarrow> bool" where
  "satisfies req s =
     (dubboInterface s = path (attachment req)
      \<and> group s = Some (requestedGroup req)
      \<and> (requestedVersion req = ''*'' \<or> version s = Some (requestedVersion req))
      \<and> methodName req \<in> fst ` set (methods s))"

text \<open>
  What the test of the router accepts: the same, with the method name read as a property of
  the method table, own or inherited.
\<close>

definition answers :: "request \<Rightarrow> service \<Rightarrow> bool" where
  "answers req s =
     (dubboInterface s = path (attachment req)
      \<and> group s = Some (requestedGroup req)
      \<and> (requestedVersion req = ''*'' \<or> version s = Some (requestedVersion req))
      \<and> getMember s (methodName req) \<noteq> None)"

text \<open>The candidates of the router for an interface.\<close>

definition bucket :: "serviceRouter \<Rightarrow> string \<Rightarrow> service list" where
  "bucket router p = (case router p of None \<Rightarrow> [] | Some l \<Rightarrow> l)"

text \<open>What one iteration of the registration loop makes of an entry of the service map.\<close>

fun withMeta :: "dubboSetting option \<Rightarrow> string \<times> service \<Rightarrow> string \<times> service" where
  "withMeta setting (shortName, svc) =
     (let m = (case setting of
                 Some getDubboSetting \<Rightarrow> getDubboSetting shortName (dubboInterface svc)
               | None \<Rightarrow> \<lparr>m_group = Some [], m_version = Some ''0.0.0''\<rparr>)
      in (shortName, svc\<lparr>group := m_group m, version := m_version m\<rparr>))"

text \<open>The batch that a server announces when it registers in an environment.\<close>

definition batchOf :: "environment \<Rightarrow> serverState \<Rightarrow> registryEntry list" where
  "batchOf env st =
     fst (snd (registerLoop (dubboSetting st)
                 (\<lambda>k. buildUrl (ipAddress env) (Some (randomPort env)) (pid env) (now env k))
                 (services st) (serviceRouter st) [] []))"

text \<open>
  The batch of all services of a server: for the \<open>k\<close>-th entry of the service map, its
  interface and the URL built at the \<open>k\<close>-th clock reading for the descriptor with its
  group and version assigned.
\<close>

definition fullBatch :: "environment \<Rightarrow> serverState \<Rightarrow> registryEntry list" where
  "fullBatch env st =
     map (\<lambda>(k, e).
            \<lparr>dubboServiceInterface = dubboInterface (snd e),
             dubboServiceUrl =
               buildUrl (ipAddress env) (Some (randomPort env)) (pid env) (now env k)
                 (snd (withMeta (dubboSetting st) e))\<rparr>)
       (enumerate 0 (services st))"

text \<open>The first failure of the registration, if there is one.\<close>

definition registrationFailure :: "environment \<Rightarrow> jsval option" where
  "registrationFailure env =
     (case registryReady env of Some err \<Rightarrow> Some err | None \<Rightarrow> registryRegister env)"

text \<open>Order in the log of events: the first event of one kind is before the first of another.\<close>

fun firstIndex :: "('a \<Rightarrow> bool) \<Rightarrow> 'a list \<Rightarrow> nat option" where
  "firstIndex P [] = None"
| "firstIndex P (x # xs) = (if P x then Some 0 else map_option Suc (firstIndex P xs))"

definition precedes :: "('a \<Rightarrow> bool) \<Rightarrow> ('a \<Rightarrow> bool) \<Rightarrow> 'a list \<Rightarrow> bool" where
  "precedes P Q es =
     (case firstIndex P es of
        None \<Rightarrow> False
      | Some i \<Rightarrow> (case firstIndex Q es of None \<Rightarrow> False | Some j \<Rightarrow> i < j))"

fun isListening :: "event \<Rightarrow> bool" where
  "isListening (Listening p) = True"
| "isListening e = False"

fun isInformed :: "event \<Rightarrow> bool" where
  "isInformed (RegistryInformed b) = True"
| "isInformed e = False"

fun isResolve :: "event \<Rightarrow> bool" where
  "isResolve ReadyResolve = True"
| "isResolve e = False"

section \<open>The scenarios of the specification\<close>

text \<open>
  The service \<open>Echo\<close> with the method \<^verbatim>\<open>say(x)\<close> that returns \<open>x\<close>, the same service
  with a method that throws \<^verbatim>\<open>Error("boom")\<close>, a server that exposes it with no setting
  lookup, and the requests of the scenarios.
\<close>

definition say :: handler where
  "say a c = (Normal (case a of [] \<Rightarrow> Undefined | x # xs \<Rightarrow> x), c)"

definition boom :: handler where
  "boom a c = (Throw (ErrorV ''boom''), c)"

definition echoService :: service where
  "echoService = \<lparr>dubboInterface = ''Echo'', group = None, version = None,
                   methods = [(''say'', say)], inheritedNames = objectPrototype\<rparr>"

definition boomService :: service where
  "boomService = \<lparr>dubboInterface = ''Echo'', group = None, version = None,
                   methods = [(''say'', boom)], inheritedNames = objectPrototype\<rparr>"

definition echoProps :: props where
  "echoProps = \<lparr>props_registry = PObject [Ready, RegistyServices, Close],
                 props_services = PObject [(''echo'', echoService)],
                 props_dubboSetting = None\<rparr>"

definition boomProps :: props where
  "boomProps = \<lparr>props_registry = PObject [Ready, RegistyServices, Close],
                 props_services = PObject [(''echo'', boomService)],
                 props_dubboSetting = None\<rparr>"

definition noRegistryProps :: props where
  "noRegistryProps = \<lparr>props_registry = PUndefined,
                       props_services = PObject [(''echo'', echoService)],
                       props_dubboSetting = None\<rparr>"

definition noServicesProps :: props where
  "noServicesProps = \<lparr>props_registry = PObject [Ready, RegistyServices, Close],
                       props_services = PUndefined,
                       props_dubboSetting = None\<rparr>"

definition emptyProps :: props where
  "emptyProps = \<lparr>props_registry = PObject [Ready, RegistyServices, Close],
                  props_services = PObject [],
                  props_dubboSetting = None\<rparr>"

definition env0 :: environment where
  "env0 = \<lparr>randomPort = 20880, bindError = None, retryStartThrows = None,
            registryReady = None, registryRegister = None,
            ipAddress = ''192.168.1.5'', pid = 4242, now = (\<lambda>k. 1700000000000)\<rparr>"

definition envRegistryDown :: environment where
  "envRegistryDown = env0\<lparr>registryReady := Some (ErrorV ''registry down'')\<rparr>"

definition echoRequest :: request where
  "echoRequest = \<lparr>methodName = ''say'', args = Some [Str ''hi''],
                   attachment = \<lparr>path = ''Echo'', att_group = Some [], att_version = Some ''0.0.0''\<rparr>\<rparr>"

definition toStringRequest :: request where
  "toStringRequest = \<lparr>methodName = ''toString'', args = Some [Str ''hi''],
                   attachment = \<lparr>path = ''Echo'', att_group = Some [], att_version = Some ''0.0.0''\<rparr>\<rparr>"

definition otherVersionRequest :: request where
  "otherVersionRequest = \<lparr>methodName = ''say'', args = Some [Str ''hi''],
                   attachment = \<lparr>path = ''Echo'', att_group = Some [], att_version = Some ''9.9.9''\<rparr>\<rparr>"

definition anyVersionRequest :: request where
  "anyVersionRequest = \<lparr>methodName = ''say'', args = Some [Str ''hi''],
                   attachment = \<lparr>path = ''Echo'', att_group = None, att_version = Some ''*''\<rparr>\<rparr>"

definition freshContext :: "request \<Rightarrow> context" where
  "freshContext req = \<lparr>request = req, status = OK, body = Undefined\<rparr>"

text \<open>
  An engine for the scenarios in which every inherited member answers as
  \<^verbatim>\<open>Object.prototype.toString\<close> does on a plain object.
\<close>

definition tagOnly :: "service \<Rightarrow> string \<Rightarrow> handler" where
  "tagOnly s name a c = (Normal (Str ''[object Object]''), c)"

text \<open>An argument is absent when it is \<^verbatim>\<open>undefined\<close> or \<^verbatim>\<open>null\<close>.\<close>

definition absent :: "'a propval \<Rightarrow> bool" where
  "absent v = (case v of PObject x \<Rightarrow> False | PUndefined \<Rightarrow> True | PNull \<Rightarrow> True)"

text \<open>A middleware that marks the body and goes on with the chain.\<close>

definition stamp :: middleware where
  "stamp this next w = next (w\<lparr>ctx := (ctx w)\<lparr>body := Str ''seen''\<rparr>\<rparr>)"

text \<open>Two versions of one interface, told apart by the setting lookup.\<close>

definition twoVersions :: dubboSetting where
  "twoVersions shortName interface =
     \<lparr>m_group = Some [], m_version = Some (if shortName = ''first'' then ''1.0.0'' else ''2.0.0'')\<rparr>"

definition twoProps :: props where
  "twoProps = \<lparr>props_registry = PObject [Ready, RegistyServices, Close],
                props_services = PObject [(''first'', echoService), (''second'', echoService)],
                props_dubboSetting = Some twoVersions\<rparr>"

section \<open>Routing\<close>

lemma bucket_empty: "bucket Map.empty p = []"
  by (simp add: bucket_def)

lemma bucket_step:
  "bucket (case router k of Some l \<Rightarrow> router(k \<mapsto> l @ [s]) | None \<Rightarrow> router(k \<mapsto> [s])) p =
     (if p = k then bucket router k @ [s] else bucket router p)"
  by (simp add: bucket_def split: option.splits)

lemma registerLoop_visited:
  "snd (snd (registerLoop setting url svcs router batch visited)) =
     visited @ map (withMeta setting) svcs"
proof (induction svcs arbitrary: router batch visited)
  case Nil
  show ?case by simp
next
  case (Cons e rest)
  obtain shortName svc where e: "e = (shortName, svc)" by (cases e)
  show ?case unfolding e
    by (simp add: Let_def Cons.IH)
qed

lemma registerLoop_batch_length:
  "length (fst (snd (registerLoop setting url svcs router batch visited))) =
     length batch + length svcs"
proof (induction svcs arbitrary: router batch visited)
  case Nil
  show ?case by simp
next
  case (Cons e rest)
  obtain shortName svc where e: "e = (shortName, svc)" by (cases e)
  show ?case unfolding e
    by (simp add: Let_def Cons.IH)
qed

text \<open>
  The loop collects one announcement for every entry of the service map, in order: the
  interface of the entry and the URL of the descriptor with its group and version assigned.
\<close>

lemma registerLoop_batch:
  "fst (snd (registerLoop setting url svcs router batch visited)) =
     batch @ map (\<lambda>(k, e). \<lparr>dubboServiceInterface = dubboInterface (snd e),
                              dubboServiceUrl = url k (snd (withMeta setting e))\<rparr>)
               (enumerate (length batch) svcs)"
proof (induction svcs arbitrary: router batch visited)
  case Nil
  show ?case by simp
next
  case (Cons e rest)
  obtain shortName svc where e: "e = (shortName, svc)" by (cases e)
  show ?case unfolding e
    by (simp add: Let_def Cons.IH)
qed

lemma registerLoop_bucket:
  "bucket (fst (registerLoop setting url svcs router batch visited)) p =
     bucket router p @ filter (\<lambda>s. dubboInterface s = p) (map (\<lambda>e. snd (withMeta setting e)) svcs)"
proof (induction svcs arbitrary: router batch visited)
  case Nil
  show ?case by simp
next
  case (Cons e rest)
  obtain shortName svc where e: "e = (shortName, svc)" by (cases e)
  show ?case unfolding e
    by (simp add: Let_def Cons.IH bucket_step cong: option.case_cong)
qed

lemma find_filter: "find P (filter Q xs) = find (\<lambda>x. Q x \<and> P x) xs"
  by (induction xs) auto

lemma getMember_defined:
  "(getMember s name \<noteq> None) = (name \<in> fst ` set (methods s) \<or> name \<in> set (inheritedNames s))"
proof (cases "map_of (methods s) name")
  case None
  then have "name \<notin> fst ` set (methods s)"
    by (simp add: map_of_eq_None_iff)
  with None show ?thesis
    by (simp add: getMember_def)
next
  case (Some own)
  then have "name \<in> fst ` set (methods s)"
    by (metis map_of_eq_None_iff option.distinct(1))
  with Some show ?thesis
    by (simp add: getMember_def)
qed

lemma answers_code:
  "answers req s =
     (dubboInterface s = path (attachment req) \<and>
      (getMember s (methodName req) \<noteq> None \<and> Some (requestedGroup req) = group s
       \<and> (requestedVersion req = ''*'' \<or> version s = Some (requestedVersion req))))"
  unfolding answers_def by auto

text \<open>
  Outside the inherited names the router's test is the one of the specification.
\<close>

lemma answers_satisfies:
  "methodName req \<notin> set (inheritedNames s) \<Longrightarrow> answers req s = satisfies req s"
  unfolding answers_def satisfies_def getMember_defined by simp

lemma matchService_bucket:
  "matchService router req =
     find (\<lambda>s. getMember s (methodName req) \<noteq> None \<and> Some (requestedGroup req) = group s
                \<and> (requestedVersion req = ''*'' \<or> version s = Some (requestedVersion req)))
       (bucket router (path (attachment req)))"
  by (simp add: matchService_def bucket_def requestedGroup_def requestedVersion_def Let_def)

lemma matchService_registerLoop:
  "matchService (fst (registerLoop setting url svcs Map.empty [] [])) req =
     find (answers req) (map snd (snd (snd (registerLoop setting url svcs Map.empty [] []))))"
proof -
  have "matchService (fst (registerLoop setting url svcs Map.empty [] [])) req =
        find (\<lambda>s. dubboInterface s = path (attachment req) \<and>
                 (getMember s (methodName req) \<noteq> None \<and> Some (requestedGroup req) = group s
                \<and> (requestedVersion req = ''*'' \<or> version s = Some (requestedVersion req))))
          (map (\<lambda>e. snd (withMeta setting e)) svcs)"
    by (simp add: matchService_bucket registerLoop_bucket find_filter bucket_empty)
  also have "\<dots> = find (answers req) (map (\<lambda>e. snd (withMeta setting e)) svcs)"
    by (simp only: answers_code [symmetric])
  finally show ?thesis
    by (simp add: registerLoop_visited o_def)
qed

lemma DubboServer_Inr:
  "(DubboServer ps = Inr st) =
     (isObj (props_registry ps) \<and> isObj (props_services ps) \<and> st = initialise ps)"
  by (auto simp: DubboServer_def checkProps_def)

lemma listen_registered:
  assumes "bindError env = None" and "registryReady env = None"
  shows "serviceRouter (listen env st) =
           fst (registerLoop (dubboSetting st)
                  (\<lambda>k. buildUrl (ipAddress env) (Some (randomPort env)) (pid env) (now env k))
                  (services st) (serviceRouter st) [] [])"
    and "services (listen env st) =
           snd (snd (registerLoop (dubboSetting st)
                  (\<lambda>k. buildUrl (ipAddress env) (Some (randomPort env)) (pid env) (now env k))
                  (services st) (serviceRouter st) [] []))"
  using assms
  by (simp_all add: listen_def registerServices_def emit_def resolveReady_def Let_def
        split: prod.splits option.splits)

text \<open>
  On a server that was constructed, bound its socket and registered its services,
  resolution returns the first registered descriptor that the router's test accepts.
\<close>

lemma matchService_listen:
  assumes "DubboServer ps = Inr st0" and "bindError env = None" and "registryReady env = None"
  shows "matchService (serviceRouter (listen env st0)) req =
           find (answers req) (map snd (services (listen env st0)))"
proof -
  have "serviceRouter st0 = Map.empty"
    using assms(1) by (simp add: DubboServer_Inr initialise_def)
  then show ?thesis
    using matchService_registerLoop [of "dubboSetting st0" _ "services st0" req]
    by (simp add: listen_registered [OF assms(2,3)])
qed

text \<open>
  For a method name that no registered descriptor inherits, resolution is as the
  specification has it: the first registered descriptor that satisfies the request.
\<close>

lemma matchService_own_names:
  assumes "DubboServer ps = Inr st0" and "bindError env = None" and "registryReady env = None"
    and "\<forall>e \<in> set (services (listen env st0)). methodName req \<notin> set (inheritedNames (snd e))"
  shows "(matchService (serviceRouter (listen env st0)) req = Some d) =
         (\<exists>i < length (services (listen env st0)).
             snd (services (listen env st0) ! i) = d \<and> satisfies req d
             \<and> (\<forall>j < i. \<not> satisfies req (snd (services (listen env st0) ! j))))"
proof -
  have "find (answers req) (map snd (services (listen env st0))) =
        find (satisfies req) (map snd (services (listen env st0)))"
    using assms(4) by (intro find_cong) (auto simp: answers_satisfies)
  then have eq: "matchService (serviceRouter (listen env st0)) req =
        find (satisfies req) (map snd (services (listen env st0)))"
    by (simp add: matchService_listen [OF assms(1-3)])
  show ?thesis
    unfolding eq find_Some_iff
    by (auto simp: nth_map)
qed

lemma echo_services:
  "services (listen env0 (initialise echoProps)) =
     [(''echo'', echoService\<lparr>group := Some [], version := Some ''0.0.0''\<rparr>)]"
  by (simp add: listen_registered env0_def initialise_def echoProps_def Let_def)

lemma echo_constructed: "DubboServer echoProps = Inr (initialise echoProps)"
  by (simp add: DubboServer_Inr isObj_def echoProps_def)

lemma echo_started:
  "started env0 echoProps = Inr (listen env0 (initialise echoProps))"
  by (simp add: started_def echo_constructed)

lemma echo_resolution:
  "matchService (serviceRouter (listen env0 (initialise echoProps))) req =
     find (answers req) [echoService\<lparr>group := Some [], version := Some ''0.0.0''\<rparr>]"
proof -
  have "bindError env0 = None" and "registryReady env0 = None"
    by (simp_all add: env0_def)
  then show ?thesis
    using matchService_listen [OF echo_constructed, of env0 req]
    by (simp add: echo_services)
qed

text \<open>
  Two versions of one interface and a request for any version: the first registered wins.
\<close>

lemma twoProps_services:
  "services (listen env0 (initialise twoProps)) =
     [(''first'', echoService\<lparr>group := Some [], version := Some ''1.0.0''\<rparr>),
      (''second'', echoService\<lparr>group := Some [], version := Some ''2.0.0''\<rparr>)]"
  by (simp add: listen_registered env0_def initialise_def twoProps_def twoVersions_def Let_def)

lemma first_registered_wins:
  "matchService (serviceRouter (listen env0 (initialise twoProps))) anyVersionRequest =
     Some (echoService\<lparr>group := Some [], version := Some ''1.0.0''\<rparr>)"
proof -
  have "DubboServer twoProps = Inr (initialise twoProps)"
    by (simp add: DubboServer_Inr isObj_def twoProps_def)
  then have "matchService (serviceRouter (listen env0 (initialise twoProps))) anyVersionRequest =
        find (answers anyVersionRequest) (map snd (services (listen env0 (initialise twoProps))))"
    by (rule matchService_listen) (simp_all add: env0_def)
  then show ?thesis
    by (simp add: twoProps_services answers_def anyVersionRequest_def requestedGroup_def
          requestedVersion_def echoService_def getMember_def)
qed

text \<open>
  Claim C3, on the code. On the \<open>Echo\<close> server, whose method table is \<^verbatim>\<open>{say}\<close>, the
  request for the method \<^verbatim>\<open>toString\<close> of \<open>Echo\<close> is resolved to the \<open>Echo\<close>
  descriptor, which does not satisfy the request: the name is not in its method table, the
  table inherits it from \<^verbatim>\<open>Object.prototype\<close>. The claim has no descriptor returned.
\<close>

theorem inherited_name_is_matched:
  "(case started env0 echoProps of
      Inl err \<Rightarrow> None
    | Inr st \<Rightarrow> matchService (serviceRouter st) toStringRequest) =
   Some (echoService\<lparr>group := Some [], version := Some ''0.0.0''\<rparr>)
   \<and> \<not> satisfies toStringRequest (echoService\<lparr>group := Some [], version := Some ''0.0.0''\<rparr>)"
  by (simp add: echo_started echo_resolution answers_def satisfies_def toStringRequest_def
        requestedGroup_def requestedVersion_def echoService_def getMember_def objectPrototype_def)

text \<open>
  Claim C10. A request whose attachment omits the version is resolved as a request for
  version 0.0.0, and a request whose attachment omits the group as a request for the
  group "".
\<close>

theorem matchService_default_version_and_group:
  "matchService router (req\<lparr>attachment := (attachment req)\<lparr>att_version := None\<rparr>\<rparr>) =
     matchService router (req\<lparr>attachment := (attachment req)\<lparr>att_version := Some ''0.0.0''\<rparr>\<rparr>)
   \<and> matchService router (req\<lparr>attachment := (attachment req)\<lparr>att_group := None\<rparr>\<rparr>) =
     matchService router (req\<lparr>attachment := (attachment req)\<lparr>att_group := Some []\<rparr>\<rparr>)"
  by (simp add: matchService_def)

section \<open>The pipeline\<close>

text \<open>
  The terminal step assigns the body through its receiver. Called as a plain function, as
  \<open>dispatch\<close> calls it, it has no receiver: both assignments throw, the second one out of
  the \<^verbatim>\<open>catch\<close> block, whatever the method did.
\<close>

lemma setThisBody_undefined:
  "setThisBody ThisUndefined v w = (Throw (TypeErrorV ''Cannot set properties of undefined''), w)"
  by (simp add: setThisBody_def)

lemma handleRequest_plain_call_throws:
  "fst (handleRequest checkRetValHessian applyInherited svc req ThisUndefined next w) =
     Throw (TypeErrorV ''Cannot set properties of undefined'')"
  by (simp add: handleRequest_def setThisBody_undefined Let_def
        split: prod.splits completion.splits option.splits member.splits)

lemma handleRequest_plain_call_invoked:
  "invoked (snd (handleRequest checkRetValHessian applyInherited svc req ThisUndefined next w)) =
     invoked w"
  by (simp add: handleRequest_def setThisBody_undefined Let_def
        split: prod.splits completion.splits option.splits member.splits)

text \<open>
  With the context as its receiver the same step stores the result, or the error that the
  method threw, in the body of the context.
\<close>

lemma handleRequest_on_context_returns:
  assumes "getMember svc (methodName req) = Some (OwnMethod method)"
    and "method (case args req of None \<Rightarrow> [] | Some a \<Rightarrow> a) ((ctx w)\<lparr>status := OK\<rparr>) = (Normal res, c)"
    and "checkRetValHessian res"
  shows "handleRequest checkRetValHessian applyInherited svc req ThisContext next w =
           (Normal (), w\<lparr>ctx := c\<lparr>body := res\<rparr>\<rparr>)"
  using assms by (simp add: handleRequest_def setThisBody_def Let_def)

lemma handleRequest_on_context_throws:
  assumes "getMember svc (methodName req) = Some (OwnMethod method)"
    and "method (case args req of None \<Rightarrow> [] | Some a \<Rightarrow> a) ((ctx w)\<lparr>status := OK\<rparr>) = (Throw err, c)"
  shows "handleRequest checkRetValHessian applyInherited svc req ThisContext next w =
           (Normal (), w\<lparr>ctx := c\<lparr>body := err\<rparr>\<rparr>)"
  using assms by (simp add: handleRequest_def setThisBody_def Let_def)

text \<open>
  So a matched request on a server without middleware ends in the outer \<^verbatim>\<open>catch\<close>:
  status \<open>SERVER_ERROR\<close>, and the \<^verbatim>\<open>TypeError\<close> as the body.
\<close>

lemma matched_request_without_middleware:
  assumes "matchService (serviceRouter st) req = Some svc" and "middlewares st = []"
  shows "status (ctx (invokeComposeChainRequest newContext checkRetValHessian applyInherited st req)) =
           SERVER_ERROR"
    and "body (ctx (invokeComposeChainRequest newContext checkRetValHessian applyInherited st req)) =
           TypeErrorV ''Cannot set properties of undefined''"
    and "invoked (invokeComposeChainRequest newContext checkRetValHessian applyInherited st req) = [0]"
proof -
  let ?w = "\<lparr>ctx = newContext req, invoked = [0]\<rparr>"
  let ?next = "\<lambda>w. (Normal (), w)"
  obtain r w' where
    h: "handleRequest checkRetValHessian applyInherited svc req ThisUndefined ?next ?w = (r, w')"
    by (cases "handleRequest checkRetValHessian applyInherited svc req ThisUndefined ?next ?w")
  have r: "r = Throw (TypeErrorV ''Cannot set properties of undefined'')"
    using handleRequest_plain_call_throws [of checkRetValHessian applyInherited svc req ?next ?w] h
    by simp
  have i: "invoked w' = [0]"
    using handleRequest_plain_call_invoked [of checkRetValHessian applyInherited svc req ?next ?w] h
    by simp
  have e: "invokeComposeChainRequest newContext checkRetValHessian applyInherited st req =
          w'\<lparr>ctx := (ctx w')\<lparr>status := SERVER_ERROR,
                             body := TypeErrorV ''Cannot set properties of undefined''\<rparr>\<rparr>"
    using assms h r by (simp add: invokeComposeChainRequest_def compose_def Let_def)
  show "status (ctx (invokeComposeChainRequest newContext checkRetValHessian applyInherited st req)) =
           SERVER_ERROR"
    by (simp add: e)
  show "body (ctx (invokeComposeChainRequest newContext checkRetValHessian applyInherited st req)) =
           TypeErrorV ''Cannot set properties of undefined''"
    by (simp add: e)
  show "invoked (invokeComposeChainRequest newContext checkRetValHessian applyInherited st req) = [0]"
    by (simp add: e i)
qed

lemma boom_constructed: "DubboServer boomProps = Inr (initialise boomProps)"
  by (simp add: DubboServer_Inr isObj_def boomProps_def)

lemma boom_started:
  "started env0 boomProps = Inr (listen env0 (initialise boomProps))"
  by (simp add: started_def boom_constructed)

lemma boom_services:
  "services (listen env0 (initialise boomProps)) =
     [(''echo'', boomService\<lparr>group := Some [], version := Some ''0.0.0''\<rparr>)]"
  by (simp add: listen_registered env0_def initialise_def boomProps_def Let_def)

lemma echo_matched:
  "matchService (serviceRouter (listen env0 (initialise echoProps))) echoRequest =
     Some (echoService\<lparr>group := Some [], version := Some ''0.0.0''\<rparr>)"
  by (simp add: echo_resolution answers_def echoRequest_def requestedGroup_def
        requestedVersion_def echoService_def getMember_def)

lemma boom_matched:
  "matchService (serviceRouter (listen env0 (initialise boomProps))) echoRequest =
     Some (boomService\<lparr>group := Some [], version := Some ''0.0.0''\<rparr>)"
proof -
  have "bindError env0 = None" and "registryReady env0 = None"
    by (simp_all add: env0_def)
  then have "matchService (serviceRouter (listen env0 (initialise boomProps))) echoRequest =
        find (answers echoRequest) (map snd (services (listen env0 (initialise boomProps))))"
    using matchService_listen [OF boom_constructed, of env0 echoRequest] by simp
  then show ?thesis
    by (simp add: boom_services answers_def echoRequest_def requestedGroup_def
          requestedVersion_def boomService_def getMember_def)
qed

lemma echo_unmatched:
  "matchService (serviceRouter (listen env0 (initialise echoProps))) otherVersionRequest = None"
  by (simp add: echo_resolution answers_def otherVersionRequest_def requestedGroup_def
        requestedVersion_def echoService_def)

lemma listen_middlewares: "middlewares (listen env st) = middlewares st"
  by (simp add: listen_def registerServices_def emit_def resolveReady_def rejectReady_def Let_def
        split: prod.splits option.splits completion.splits)

text \<open>
  The request for the inherited name \<^verbatim>\<open>toString\<close> is matched, so it runs the
  pipeline, whose terminal step applies the inherited member to the descriptor.
\<close>

lemma inherited_name_runs_the_pipeline:
  "status (ctx (invokeComposeChainRequest newContext checkRetValHessian applyInherited
                  (listen env0 (initialise echoProps)) toStringRequest)) = SERVER_ERROR
   \<and> invoked (invokeComposeChainRequest newContext checkRetValHessian applyInherited
                  (listen env0 (initialise echoProps)) toStringRequest) = [0]"
proof -
  have m: "matchService (serviceRouter (listen env0 (initialise echoProps))) toStringRequest =
             Some (echoService\<lparr>group := Some [], version := Some ''0.0.0''\<rparr>)"
    by (simp add: echo_resolution answers_def toStringRequest_def requestedGroup_def
          requestedVersion_def echoService_def getMember_def objectPrototype_def)
  have n: "middlewares (listen env0 (initialise echoProps)) = []"
    by (simp add: listen_middlewares initialise_def)
  show ?thesis
    using matched_request_without_middleware [OF m n] by simp
qed

text \<open>A middleware in use on the \<open>Echo\<close> server.\<close>

lemma use_stamp:
  "use (PObject stamp) (listen env0 (initialise echoProps)) =
     Inr ((listen env0 (initialise echoProps))\<lparr>middlewares := [stamp]\<rparr>)"
  by (simp add: use_def listen_middlewares initialise_def)

text \<open>
  Claim C1, on the code. The server exposes \<open>Echo\<close> under the default group and version,
  \<^verbatim>\<open>say(x)\<close> returns \<open>x\<close> and every return value is representable. The request
  \<^verbatim>\<open>{path: "Echo", methodName: "say", args: ["hi"], group: "", version: "0.0.0"}\<close> is
  matched, and the context that comes back has the status \<open>SERVER_ERROR\<close> and a
  \<^verbatim>\<open>TypeError\<close> as its body, where the claim has the status \<open>OK\<close> and the body
  \<^verbatim>\<open>"hi"\<close>.
\<close>

theorem echo_request_ends_in_server_error:
  "(case started env0 echoProps of
      Inl err \<Rightarrow> None
    | Inr st \<Rightarrow>
        Some (status (ctx (invokeComposeChainRequest freshContext (\<lambda>v. True) applyInherited st
                             echoRequest)),
              body (ctx (invokeComposeChainRequest freshContext (\<lambda>v. True) applyInherited st
                           echoRequest)))) =
   Some (SERVER_ERROR, TypeErrorV ''Cannot set properties of undefined'')"
  using matched_request_without_middleware [OF echo_matched, of freshContext "\<lambda>v. True" applyInherited]
  by (simp add: echo_started listen_middlewares initialise_def)

text \<open>
  Claim C2, on the code. The same server with a method \<^verbatim>\<open>say\<close> that throws
  \<^verbatim>\<open>Error("boom")\<close>: the request is matched, and the context that comes back has the
  status \<open>SERVER_ERROR\<close> and a \<^verbatim>\<open>TypeError\<close> as its body, where the claim has the
  status \<open>OK\<close> and the thrown error as the body.
\<close>

theorem throwing_handler_ends_in_server_error:
  "(case started env0 boomProps of
      Inl err \<Rightarrow> None
    | Inr st \<Rightarrow>
        Some (status (ctx (invokeComposeChainRequest freshContext (\<lambda>v. True) applyInherited st
                             echoRequest)),
              body (ctx (invokeComposeChainRequest freshContext (\<lambda>v. True) applyInherited st
                           echoRequest)))) =
   Some (SERVER_ERROR, TypeErrorV ''Cannot set properties of undefined'')"
  using matched_request_without_middleware [OF boom_matched, of freshContext "\<lambda>v. True" applyInherited]
  by (simp add: boom_started listen_middlewares initialise_def)

text \<open>
  Claim C4. For a request for which resolution returns no descriptor, the context that
  comes back is the fresh context with the status \<open>SERVICE_NOT_FOUND\<close> and, as its body,
  an error whose message names the path, the method, the group and the version of the
  request; no step of the pipeline was invoked, whatever middleware the server has.
\<close>

theorem unmatched_request_service_not_found:
  assumes "matchService (serviceRouter st) req = None"
  shows "invokeComposeChainRequest newContext checkRetValHessian applyInherited st req =
           \<lparr>ctx = (newContext req)
                   \<lparr>status := SERVICE_NOT_FOUND,
                    body := ErrorV (''Service not found with '' @ path (attachment req) @ '' and ''
                              @ methodName req @ '', group:'' @ requestedGroup req @ '', version:''
                              @ (case att_version (attachment req) of
                                   None \<Rightarrow> ''undefined'' | Some v \<Rightarrow> v))\<rparr>,
            invoked = []\<rparr>"
  using assms by (simp add: invokeComposeChainRequest_def requestedGroup_def Let_def)

text \<open>
  The scenario of the specification: the \<open>Echo\<close> server, here with a middleware in use,
  and a request for version 9.9.9.
\<close>

theorem unmatched_request_service_not_found_witness:
  "matchService (serviceRouter ((listen env0 (initialise echoProps))\<lparr>middlewares := [stamp]\<rparr>))
     otherVersionRequest = None
   \<and> invokeComposeChainRequest freshContext (\<lambda>v. True) tagOnly
       ((listen env0 (initialise echoProps))\<lparr>middlewares := [stamp]\<rparr>) otherVersionRequest =
       \<lparr>ctx = \<lparr>request = otherVersionRequest, status = SERVICE_NOT_FOUND,
               body = ErrorV ''Service not found with Echo and say, group:, version:9.9.9''\<rparr>,
        invoked = []\<rparr>"
proof -
  have m: "matchService (serviceRouter ((listen env0 (initialise echoProps))\<lparr>middlewares := [stamp]\<rparr>))
     otherVersionRequest = None"
    by (simp add: echo_unmatched)
  show ?thesis
    using m unmatched_request_service_not_found [OF m, of freshContext "\<lambda>v. True" tagOnly]
    by (simp add: freshContext_def otherVersionRequest_def requestedGroup_def)
qed

section \<open>Readiness and registration\<close>

lemma batchOf_length: "length (batchOf env st) = length (services st)"
  by (simp add: batchOf_def registerLoop_batch_length)

lemma batchOf_fullBatch: "batchOf env st = fullBatch env st"
  by (simp add: batchOf_def fullBatch_def registerLoop_batch)

text \<open>What a run of \<^verbatim>\<open>listen\<close> whose socket binds adds to the log, and does to the promise.\<close>

lemma listen_bound_events:
  assumes "bindError env = None"
  shows "events (listen env st) =
           events st @ [Listening (randomPort env), ReadyResolve, RetryReset, RegistryReady]
           @ (case registryReady env of
                Some err \<Rightarrow> [UnhandledRejection err]
              | None \<Rightarrow> RegistryInformed (batchOf env st)
                         # (case registryRegister env of
                              None \<Rightarrow> [] | Some err \<Rightarrow> [UnhandledRejection err]))"
  using assms
  by (simp add: listen_def registerServices_def emit_def resolveReady_def batchOf_def Let_def
        split: prod.splits option.splits)

lemma listen_bound_promise:
  assumes "bindError env = None"
  shows "readyPromise (listen env st) =
           (if readyPromise st = Pending then Fulfilled else readyPromise st)"
  using assms
  by (simp add: listen_def registerServices_def emit_def resolveReady_def Let_def
        split: prod.splits option.splits)

text \<open>
  Claim C5, as amended. On a constructed server whose socket binds and whose registry
  answers, the readiness promise is resolved once, by the listening callback: after the
  socket is bound and before the registry is asked anything. The order is bind, resolution,
  registry announcement.
\<close>

theorem ready_resolves_at_bind_before_registry:
  assumes "DubboServer ps = Inr st0" and "bindError env = None"
    and "registryReady env = None" and "registryRegister env = None"
  shows "readyPromise (listen env st0) = Fulfilled
         \<and> events (listen env st0) =
             [Listening (randomPort env), ReadyResolve, RetryReset, RegistryReady,
              RegistryInformed (batchOf env st0)]
         \<and> precedes isListening isResolve (events (listen env st0))
         \<and> precedes isResolve isInformed (events (listen env st0))"
proof -
  have st0: "events st0 = []" "readyPromise st0 = Pending"
    using assms(1) by (simp_all add: DubboServer_Inr initialise_def)
  have e: "events (listen env st0) =
             [Listening (randomPort env), ReadyResolve, RetryReset, RegistryReady,
              RegistryInformed (batchOf env st0)]"
    by (simp add: listen_bound_events [OF assms(2)] st0 assms(3,4))
  have p: "readyPromise (listen env st0) = Fulfilled"
    by (simp add: listen_bound_promise [OF assms(2)] st0)
  show ?thesis
    by (simp add: e p precedes_def)
qed

theorem ready_resolves_at_bind_before_registry_witness:
  "DubboServer echoProps = Inr (initialise echoProps) \<and> bindError env0 = None
   \<and> registryReady env0 = None \<and> registryRegister env0 = None
   \<and> readyPromise (listen env0 (initialise echoProps)) = Fulfilled
   \<and> events (listen env0 (initialise echoProps)) =
       [Listening 20880, ReadyResolve, RetryReset, RegistryReady,
        RegistryInformed (batchOf env0 (initialise echoProps))]"
proof -
  have c: "DubboServer echoProps = Inr (initialise echoProps)"
    by (simp add: DubboServer_Inr isObj_def echoProps_def)
  have b: "bindError env0 = None" and r: "registryReady env0 = None"
    and g: "registryRegister env0 = None" and p: "randomPort env0 = 20880"
    by (simp_all add: env0_def)
  show ?thesis
    using c b r g p ready_resolves_at_bind_before_registry [OF c b r g]
    by simp
qed

text \<open>
  Claim C5 as stated fails: on the \<open>Echo\<close> server the registry is not informed before the
  readiness promise is resolved.
\<close>

theorem ready_not_after_registry_informed:
  "\<not> precedes isInformed isResolve (events (listen env0 (initialise echoProps)))"
proof -
  have "events (initialise echoProps) = []"
    by (simp add: initialise_def)
  then have "events (listen env0 (initialise echoProps)) =
      [Listening 20880, ReadyResolve, RetryReset, RegistryReady,
       RegistryInformed (batchOf env0 (initialise echoProps))]"
    by (simp add: listen_bound_events env0_def)
  then show ?thesis
    by (simp add: precedes_def)
qed

text \<open>
  Claim C6, as amended. When the registry's \<^verbatim>\<open>ready()\<close> rejects, or its registration
  call throws, after the socket is bound, the readiness promise, resolved at the bind, is
  not rejected and stays resolved, and the registry is never given a partial batch: it is
  given nothing when \<^verbatim>\<open>ready()\<close> rejects, and the batch of all services, once,
  otherwise.
\<close>

theorem registry_failure_leaves_ready_resolved:
  assumes "DubboServer ps = Inr st0" and "bindError env = None"
    and "registrationFailure env = Some err"
  shows "readyPromise (listen env st0) = Fulfilled
         \<and> filter isInformed (events (listen env st0)) =
             (if registryReady env = None then [RegistryInformed (fullBatch env st0)] else [])"
proof -
  have st0: "events st0 = []" "readyPromise st0 = Pending"
    using assms(1) by (simp_all add: DubboServer_Inr initialise_def)
  have p: "readyPromise (listen env st0) = Fulfilled"
    by (simp add: listen_bound_promise [OF assms(2)] st0)
  have e: "filter isInformed (events (listen env st0)) =
             (if registryReady env = None then [RegistryInformed (fullBatch env st0)] else [])"
    using assms(3)
    by (auto simp: listen_bound_events [OF assms(2)] st0 registrationFailure_def batchOf_fullBatch
          split: option.splits)
  show ?thesis
    using p e by simp
qed

theorem registry_failure_leaves_ready_resolved_witness:
  "DubboServer echoProps = Inr (initialise echoProps) \<and> bindError envRegistryDown = None
   \<and> registrationFailure envRegistryDown = Some (ErrorV ''registry down'')
   \<and> readyPromise (listen envRegistryDown (initialise echoProps)) = Fulfilled
   \<and> filter isInformed (events (listen envRegistryDown (initialise echoProps))) = []"
proof -
  have c: "DubboServer echoProps = Inr (initialise echoProps)"
    by (simp add: DubboServer_Inr isObj_def echoProps_def)
  have b: "bindError envRegistryDown = None"
    and r: "registryReady envRegistryDown = Some (ErrorV ''registry down'')"
    by (simp_all add: envRegistryDown_def env0_def)
  have f: "registrationFailure envRegistryDown = Some (ErrorV ''registry down'')"
    by (simp add: registrationFailure_def r)
  show ?thesis
    using c b f r registry_failure_leaves_ready_resolved [OF c b f]
    by simp
qed

text \<open>
  Claim C6 as stated fails: with a registry whose \<^verbatim>\<open>ready()\<close> rejects, the readiness
  promise of the \<open>Echo\<close> server is not rejected with that error.
\<close>

theorem registry_failure_does_not_reject_ready:
  "readyPromise (listen envRegistryDown (initialise echoProps)) \<noteq> Rejected (ErrorV ''registry down'')"
  by (simp add: listen_bound_promise envRegistryDown_def env0_def initialise_def)

section \<open>Closing\<close>

lemma close_without_listener:
  "server st = None \<Longrightarrow> fst (close closeErr st) = Pending"
  by (simp add: close_def emit_def Let_def)

lemma close_with_listener:
  "server st = Some l \<Longrightarrow>
     fst (close closeErr st) = (if truthy closeErr then Rejected closeErr else Fulfilled)"
  by (simp add: close_def emit_def Let_def)

lemma close_events:
  "events (snd (close closeErr st)) =
     events st @ RegistryClose # (case server st of None \<Rightarrow> [] | Some l \<Rightarrow> [ServerClose])"
  by (simp add: close_def emit_def Let_def split: option.splits)

text \<open>
  Claim C7, on the code. \<^verbatim>\<open>close()\<close> on a server that was constructed and has not
  created its listener yet returns a promise that stays pending, where the claim has it
  resolved.
\<close>

theorem close_before_listen_stays_pending:
  "(case DubboServer echoProps of
      Inl err \<Rightarrow> None
    | Inr st \<Rightarrow> Some (fst (close Undefined st))) = Some Pending"
  by (simp add: DubboServer_def checkProps_def isObj_def echoProps_def close_without_listener
        initialise_def)

section \<open>Construction\<close>

lemma isObj_absent: "absent v \<Longrightarrow> \<not> isObj v"
  by (cases v) (simp_all add: absent_def isObj_def)

text \<open>
  Claim C8. Construction throws, at once, when the registry handle is absent, and when the
  service map is absent or empty; with a registry handle and a service map that is not
  empty it succeeds.
\<close>

theorem construction_validates_arguments:
  "(absent (props_registry ps) \<longrightarrow>
      DubboServer ps = Inl (ErrorV ''Please specify registry, use Zk or Nacos init registry''))
   \<and> (absent (props_services ps) \<or> props_services ps = PObject [] \<longrightarrow> isl (DubboServer ps))
   \<and> (props_registry ps = PObject r \<and> r \<noteq> [] \<and> props_services ps = PObject m \<and> m \<noteq> [] \<longrightarrow>
      DubboServer ps = Inr (initialise ps))"
  by (auto simp: DubboServer_def checkProps_def isObj_def absent_def split: propval.splits)

theorem construction_validates_arguments_witness:
  "absent (props_registry noRegistryProps)
   \<and> DubboServer noRegistryProps =
       Inl (ErrorV ''Please specify registry, use Zk or Nacos init registry'')
   \<and> absent (props_services noServicesProps) \<and> isl (DubboServer noServicesProps)
   \<and> props_services emptyProps = PObject [] \<and> isl (DubboServer emptyProps)
   \<and> props_registry echoProps = PObject [Ready, RegistyServices, Close]
   \<and> props_services echoProps = PObject [(''echo'', echoService)]
   \<and> DubboServer echoProps = Inr (initialise echoProps)"
proof -
  have a: "absent (props_registry noRegistryProps)"
    by (simp add: noRegistryProps_def absent_def)
  have b: "absent (props_services noServicesProps)"
    by (simp add: noServicesProps_def absent_def)
  have c: "props_services emptyProps = PObject []"
    by (simp add: emptyProps_def)
  have d: "props_registry echoProps = PObject [Ready, RegistyServices, Close]"
    and e: "props_services echoProps = PObject [(''echo'', echoService)]"
    by (simp_all add: echoProps_def)
  show ?thesis
    using a b c d e
      construction_validates_arguments [of noRegistryProps]
      construction_validates_arguments [of noServicesProps]
      construction_validates_arguments [of emptyProps]
      construction_validates_arguments [of echoProps "[Ready, RegistyServices, Close]"
        "[(''echo'', echoService)]"]
    by simp
qed

section \<open>The registration URL\<close>

lemma decimal_20880: "decimal 20880 = ''20880''"
  by (simp add: decimal.simps digitChar_def)

lemma decimal_4242: "decimal 4242 = ''4242''"
  by (simp add: decimal.simps digitChar_def)

lemma decimal_now: "decimal 1700000000000 = ''1700000000000''"
  by (simp add: decimal.simps digitChar_def)

lemma qsEscape_keys:
  "qsEscape ''group'' = ''group''" "qsEscape ''version'' = ''version''"
  "qsEscape ''method'' = ''method''" "qsEscape ''side'' = ''side''"
  "qsEscape ''pid'' = ''pid''" "qsEscape ''generic'' = ''generic''"
  "qsEscape ''protocal'' = ''protocal''" "qsEscape ''dynamic'' = ''dynamic''"
  "qsEscape ''category'' = ''category''" "qsEscape ''anyhost'' = ''anyhost''"
  "qsEscape ''timestamp'' = ''timestamp''"
  by (simp_all add: qsEscape_def escapeChar_def noEscape_def)

lemma qsEscape_values:
  "qsEscape ''provider'' = ''provider''" "qsEscape ''false'' = ''false''"
  "qsEscape ''dubbo'' = ''dubbo''" "qsEscape ''true'' = ''true''"
  "qsEscape ''providers'' = ''providers''"
  by (simp_all add: qsEscape_def escapeChar_def noEscape_def)

text \<open>
  The shape of every registration URL: the values are escaped, the method value is the
  comma-join of the method names, and the key of the protocol pair is spelt
  \<^verbatim>\<open>protocal\<close>.
\<close>

lemma buildUrl_shape:
  "buildUrl ipAddr (Some p) processId t svc =
     ''dubbo://'' @ ipAddr @ '':'' @ decimal p @ ''/'' @ dubboInterface svc
     @ ''?group='' @ qsEscape (stringifyPrimitive (optStr (group svc)))
     @ ''&version='' @ qsEscape (stringifyPrimitive (optStr (version svc)))
     @ ''&method='' @ qsEscape (join '','' (map fst (methods svc)))
     @ ''&side=provider&pid='' @ qsEscape (decimal processId)
     @ ''&generic=false&protocal=dubbo&dynamic=true&category=providers&anyhost=true&timestamp=''
     @ qsEscape (decimal t)"
  by (simp add: buildUrl_def qs_stringify_def qsEscape_keys qsEscape_values)

text \<open>
  Claim C9, on the code. The URL built for the registered \<open>Echo\<close> service has the
  pair \<^verbatim>\<open>protocal=dubbo\<close> where the claim has \<^verbatim>\<open>protocol=dubbo\<close>.
\<close>

theorem echo_url_has_protocal_key:
  "buildUrl ''192.168.1.5'' (Some 20880) 4242 1700000000000
     (echoService\<lparr>group := Some [], version := Some ''0.0.0''\<rparr>) =
   ''dubbo://192.168.1.5:20880/Echo?group=&version=0.0.0&method=say&side=provider&pid=4242&generic=false&protocal=dubbo&dynamic=true&category=providers&anyhost=true&timestamp=1700000000000''"
  by (simp add: buildUrl_shape echoService_def optStr_def decimal_20880 decimal_4242 decimal_now
        qsEscape_def escapeChar_def noEscape_def)

end
